theory Spec2Isabelle
  imports Main "HOL-Library.Multiset" "HOL-Library.Word"
begin

section \<open>Browser storage and JavaScript values\<close>

text \<open>
  \<^verbatim>\<open>localStorage\<close> is a dictionary from keys to strings; \<^verbatim>\<open>getItem\<close> of a missing key
  is \<^verbatim>\<open>null\<close>, modelled as \<open>None\<close>.
\<close>

type_synonym local_storage = "string \<rightharpoonup> string"

definition getItem :: "local_storage \<Rightarrow> string \<Rightarrow> string option" where
  "getItem ls k = ls k"

definition setItem :: "local_storage \<Rightarrow> string \<Rightarrow> string \<Rightarrow> local_storage" where
  "setItem ls k v = ls(k \<mapsto> v)"

definition removeItem :: "local_storage \<Rightarrow> string \<Rightarrow> local_storage" where
  "removeItem ls k = ls(k := None)"

text \<open>
  JavaScript truthiness of a value that is a string or \<^verbatim>\<open>null\<close>: \<^verbatim>\<open>null\<close> and the
  empty string are falsy, every other string is truthy. This is what \<^verbatim>\<open>!!v\<close>,
  \<^verbatim>\<open>!v\<close>, \<^verbatim>\<open>v && w\<close> and \<^verbatim>\<open>v || w\<close> test.
\<close>

definition truthy :: "string option \<Rightarrow> bool" where
  "truthy v = (case v of None \<Rightarrow> False | Some s \<Rightarrow> s \<noteq> [])"

text \<open>The data of a response: a string or an object (its fields as an association list).\<close>

datatype js_data = DStr string | DObj "(string \<times> string) list"

definition data_truthy :: "js_data \<Rightarrow> bool" where
  "data_truthy d = (case d of DStr s \<Rightarrow> s \<noteq> [] | DObj _ \<Rightarrow> True)"

text \<open>
  A rejected axios call: \<^verbatim>\<open>error.response?.data\<close> (\<open>None\<close> when the response or its
  data is missing) and \<^verbatim>\<open>error.message\<close>.
\<close>

record api_error =
  err_response_data :: "js_data option"
  err_message :: string

text \<open>\<^verbatim>\<open>error.response?.data || fallback\<close>\<close>

definition data_or :: "js_data option \<Rightarrow> js_data \<Rightarrow> js_data" where
  "data_or v d = (case v of None \<Rightarrow> d | Some x \<Rightarrow> if data_truthy x then x else d)"

section \<open>The session store (services/auth.js)\<close>

text \<open>
  The module keeps two variables in memory, \<^verbatim>\<open>guestMode\<close> and \<^verbatim>\<open>currentUsername\<close>, and
  reads and writes the keys \<^verbatim>\<open>authToken\<close> and \<^verbatim>\<open>username\<close> of \<^verbatim>\<open>localStorage\<close>.
  Every operation takes the state and returns the new one.
\<close>

record auth_state =
  guestMode :: bool
  currentUsername :: "string option"
  localStorage :: local_storage

text \<open>
  What an operation returns: \<^verbatim>\<open>{ success: true, user }\<close> (the user as username and
  token, either of them possibly missing) or \<^verbatim>\<open>{ success: false, error }\<close>.
\<close>

datatype auth_result =
  AuthSuccess "(string \<times> string option) option"
| AuthFailure js_data

text \<open>
  \<^verbatim>\<open>login\<close> awaits \<^verbatim>\<open>authAPI.login\<close>; the outcome of that call is the parameter
  \<open>response\<close>: \<open>Inr token\<close> when it resolves with \<^verbatim>\<open>response.data.token\<close>, \<open>Inl error\<close>
  when it rejects.
\<close>

definition login ::
  "auth_state \<Rightarrow> string \<Rightarrow> string \<Rightarrow> api_error + string \<Rightarrow> auth_state \<times> auth_result" where
  "login s username password response =
     (case response of
        Inr token \<Rightarrow>
          (s\<lparr>localStorage :=
                setItem (setItem (localStorage s) ''authToken'' token) ''username'' username,
             guestMode := False,
             currentUsername := Some username\<rparr>,
           AuthSuccess (Some (username, Some token)))
      | Inl error \<Rightarrow>
          (s, AuthFailure (data_or (err_response_data error) (DStr ''Login failed''))))"

definition register ::
  "auth_state \<Rightarrow> string \<Rightarrow> string \<Rightarrow> string \<Rightarrow> string \<Rightarrow> api_error + unit
     \<Rightarrow> auth_state \<times> auth_result" where
  "register s username email password password2 response =
     (case response of
        Inr _ \<Rightarrow> (s, AuthSuccess None)
      | Inl error \<Rightarrow>
          (s, AuthFailure (data_or (err_response_data error) (DStr ''Registration failed''))))"

definition loginAsGuest :: "auth_state \<Rightarrow> auth_state \<times> auth_result" where
  "loginAsGuest s =
     (s\<lparr>guestMode := True,
        currentUsername := Some ''Guest'',
        localStorage := removeItem (removeItem (localStorage s) ''authToken'') ''username''\<rparr>,
      AuthSuccess (Some (''Guest'', None)))"

definition logout :: "auth_state \<Rightarrow> auth_state" where
  "logout s =
     s\<lparr>localStorage := removeItem (removeItem (localStorage s) ''authToken'') ''username'',
       guestMode := False,
       currentUsername := None\<rparr>"

definition isAuthenticated :: "auth_state \<Rightarrow> bool" where
  "isAuthenticated s = (truthy (getItem (localStorage s) ''authToken'') \<or> guestMode s)"

definition isGuest :: "auth_state \<Rightarrow> bool" where
  "isGuest s = (guestMode s \<and> \<not> truthy (getItem (localStorage s) ''authToken''))"

definition getUsername :: "auth_state \<Rightarrow> string" where
  "getUsername s =
     (if truthy (currentUsername s) then the (currentUsername s)
      else if truthy (getItem (localStorage s) ''username'')
        then the (getItem (localStorage s) ''username'')
      else ''Guest'')"

definition getToken :: "auth_state \<Rightarrow> string option" where
  "getToken s = getItem (localStorage s) ''authToken''"

definition initAuth :: "auth_state \<Rightarrow> auth_state" where
  "initAuth s =
     (let token = getItem (localStorage s) ''authToken'';
          username = getItem (localStorage s) ''username''
      in if truthy token \<and> truthy username
         then s\<lparr>currentUsername := username, guestMode := False\<rparr>
         else s)"

text \<open>
  Loading the page evaluates the module again: \<^verbatim>\<open>let guestMode = false\<close> and
  \<^verbatim>\<open>let currentUsername = null\<close>, while \<^verbatim>\<open>localStorage\<close> is what the browser kept.
\<close>

definition module_load :: "local_storage \<Rightarrow> auth_state" where
  "module_load ls = \<lparr>guestMode = False, currentUsername = None, localStorage = ls\<rparr>"

definition reload :: "auth_state \<Rightarrow> auth_state" where
  "reload s = module_load (localStorage s)"

text \<open>
  The states the store can be in: the module as loaded, over any stored data, followed by
  any sequence of its operations (with any outcome of the calls they await) and reloads.
\<close>

inductive reachable :: "auth_state \<Rightarrow> bool" where
  r_load: "reachable (module_load ls)"
| r_login: "reachable s \<Longrightarrow> reachable (fst (login s username password response))"
| r_register:
    "reachable s \<Longrightarrow> reachable (fst (register s username email password password2 response))"
| r_guest: "reachable s \<Longrightarrow> reachable (fst (loginAsGuest s))"
| r_logout: "reachable s \<Longrightarrow> reachable (logout s)"
| r_init: "reachable s \<Longrightarrow> reachable (initAuth s)"
| r_reload: "reachable s \<Longrightarrow> reachable (reload s)"

section \<open>The API gateway (services/api.js)\<close>

text \<open>
  Each function of the module builds one axios call. The call is modelled as the request
  it describes: method, URL, query parameters, body and headers.
\<close>

datatype js_val = JNum int | JStr string

text \<open>
  A text the user typed is kept as JavaScript has it, a list of UTF-16 code units. A value
  in the body of a request is a number or string as above, or such a text.
\<close>

type_synonym utf16 = "16 word list"

datatype body_val = BVal js_val | BText utf16

function show_nat :: "nat \<Rightarrow> string" where
  "show_nat n =
     (if n < 10 then [''0123456789'' ! n]
      else show_nat (n div 10) @ [''0123456789'' ! (n mod 10)])"
  by pat_completeness auto
termination
  by (relation "measure id") auto

definition show_int :: "int \<Rightarrow> string" where
  "show_int i = (if i < 0 then CHR ''-'' # show_nat (nat (- i)) else show_nat (nat i))"

text \<open>
  What a template literal \<^verbatim>\<open>${v}\<close> inserts for a number or string, and for a string or
  \<^verbatim>\<open>null\<close>. A number here is a post id, an integer that JavaScript prints in decimal
  digits (as it does below \<^verbatim>\<open>1e21\<close>).
\<close>

fun template_val :: "js_val \<Rightarrow> string" where
  "template_val (JNum n) = show_int n"
| "template_val (JStr s) = s"

definition template_nullable :: "string option \<Rightarrow> string" where
  "template_nullable v = (case v of None \<Rightarrow> ''null'' | Some s \<Rightarrow> s)"

datatype http_method = GET | POST

record request =
  r_method :: http_method
  r_url :: string
  r_params :: "(string \<times> js_val) list"
  r_body :: "(string \<times> body_val) list"
  r_headers :: "(string \<times> string) list"

definition API_BASE_URL :: string where
  "API_BASE_URL = ''http://127.0.0.1:8000/api''"

definition authAPI_login :: "string \<Rightarrow> string \<Rightarrow> request" where
  "authAPI_login username password =
     \<lparr>r_method = POST, r_url = API_BASE_URL @ ''/auth/login/'', r_params = [],
      r_body = [(''username'', BVal (JStr username)), (''password'', BVal (JStr password))],
      r_headers = []\<rparr>"

definition authAPI_register :: "string \<Rightarrow> string \<Rightarrow> string \<Rightarrow> string \<Rightarrow> request" where
  "authAPI_register username email password password2 =
     \<lparr>r_method = POST, r_url = API_BASE_URL @ ''/auth/register/'', r_params = [],
      r_body = [(''username'', BVal (JStr username)), (''email'', BVal (JStr email)),
                (''password'', BVal (JStr password)), (''password2'', BVal (JStr password2))],
      r_headers = []\<rparr>"

definition getAllPosts :: "local_storage \<Rightarrow> int \<Rightarrow> int \<Rightarrow> string \<Rightarrow> request" where
  "getAllPosts ls page pageSize ordering_arg =
     \<lparr>r_method = GET, r_url = API_BASE_URL @ ''/posts/'',
      r_params = [(''page'', JNum page), (''page_size'', JNum pageSize),
                  (''ordering'', JStr ordering_arg)],
      r_body = [],
      r_headers =
        [(''Authorization'', ''Token '' @ template_nullable (getItem ls ''authToken''))]\<rparr>"

definition getComments :: "js_val \<Rightarrow> request" where
  "getComments postId =
     \<lparr>r_method = GET, r_url = API_BASE_URL @ ''/comments/'', r_params = [(''post'', postId)],
      r_body = [], r_headers = []\<rparr>"

definition createComment :: "local_storage \<Rightarrow> js_val \<Rightarrow> utf16 \<Rightarrow> request" where
  "createComment ls postId content =
     \<lparr>r_method = POST, r_url = API_BASE_URL @ ''/comments/'', r_params = [],
      r_body = [(''post'', BVal postId), (''content'', BText content)],
      r_headers =
        [(''Authorization'', ''Token '' @ template_nullable (getItem ls ''authToken''))]\<rparr>"

definition toggleLike :: "local_storage \<Rightarrow> js_val \<Rightarrow> request" where
  "toggleLike ls postId =
     (let token = getItem ls ''authToken''
      in \<lparr>r_method = POST,
          r_url = API_BASE_URL @ ''/posts/'' @ template_val postId @ ''/like/'',
          r_params = [], r_body = [],
          r_headers = [(''Authorization'', ''Token '' @ template_nullable token)]\<rparr>)"

section \<open>What a handler does besides changing state\<close>

text \<open>
  A handler returns its new state together with the list, in order, of the things it
  did to the outside: the requests it issued, the \<^verbatim>\<open>alert\<close> boxes it showed, and its call
  of the \<^verbatim>\<open>onLoginSuccess\<close> callback. The outcome of each awaited call is a parameter
  of the handler (\<open>Inr\<close> resolved, \<open>Inl\<close> rejected).
\<close>

datatype event = Request request | Alert string | OnLoginSuccess

fun requests_of :: "event list \<Rightarrow> request list" where
  "requests_of [] = []"
| "requests_of (Request r # es) = r # requests_of es"
| "requests_of (e # es) = requests_of es"

fun alerts_of :: "event list \<Rightarrow> string list" where
  "alerts_of [] = []"
| "alerts_of (Alert m # es) = m # alerts_of es"
| "alerts_of (e # es) = alerts_of es"

section \<open>The feed (pages/Home.js) and the post page (pages/PostDetail.js)\<close>

record post =
  post_id :: int
  title :: string
  content :: string
  topic :: "int \<times> string"
  creator :: string
  created_at :: string
  likes_count :: int
  comments_count :: int
  is_liked :: bool

text \<open>The data of the like-toggle response, \<^verbatim>\<open>{liked, likes_count}\<close>.\<close>

record like_response =
  resp_liked :: bool
  resp_likes_count :: int

record home_view =
  activeTab :: string
  posts :: "post list"
  h_loading :: bool
  h_error :: string

text \<open>
  The response of the post list carries \<^verbatim>\<open>data.results\<close>, \<open>None\<close> when it is missing;
  \<^verbatim>\<open>data.data.results || []\<close> is then the empty list (an array, even an empty one,
  is truthy).
\<close>

definition fetchPosts ::
  "home_view \<Rightarrow> local_storage \<Rightarrow> api_error + post list option \<Rightarrow> home_view \<times> event list" where
  "fetchPosts v ls response =
     (let v1 = v\<lparr>h_loading := True, h_error := []\<rparr>;
          req = (if activeTab v = ''popular'' then getAllPosts ls 1 20 ''-likes_count''
                 else getAllPosts ls 1 20 ''-created_at'')
      in case response of
           Inr results \<Rightarrow>
             (v1\<lparr>posts := (case results of None \<Rightarrow> [] | Some ps \<Rightarrow> ps), h_loading := False\<rparr>,
              [Request req])
         | Inl err \<Rightarrow>
             (v1\<lparr>h_error := ''Failed to load posts'', h_loading := False\<rparr>, [Request req]))"

text \<open>
  \<^verbatim>\<open>useEffect(() => { fetchPosts(); }, [activeTab])\<close>: a tab button sets \<^verbatim>\<open>activeTab\<close>, and
  the effect runs \<^verbatim>\<open>fetchPosts\<close> again when the value has changed.
\<close>

definition setActiveTab ::
  "home_view \<Rightarrow> string \<Rightarrow> local_storage \<Rightarrow> api_error + post list option
     \<Rightarrow> home_view \<times> event list" where
  "setActiveTab v tab ls response =
     (if tab = activeTab v then (v, []) else fetchPosts (v\<lparr>activeTab := tab\<rparr>) ls response)"

text \<open>\<^verbatim>\<open>err.response?.data?.error || err.message\<close>\<close>

definition like_error_text :: "api_error \<Rightarrow> string" where
  "like_error_text err =
     (case err_response_data err of
        Some (DObj props) \<Rightarrow>
          (if truthy (map_of props ''error'') then the (map_of props ''error'')
           else err_message err)
      | _ \<Rightarrow> err_message err)"

definition Home_handleLike ::
  "home_view \<Rightarrow> auth_state \<Rightarrow> int \<Rightarrow> api_error + like_response \<Rightarrow> home_view \<times> event list" where
  "Home_handleLike v s postId response =
     (if isGuest s then (v, [Alert ''Please login to like posts''])
      else case response of
             Inr data \<Rightarrow>
               (v\<lparr>posts :=
                    map (\<lambda>post. if post_id post = postId
                                then post\<lparr>is_liked := resp_liked data,
                                          likes_count := resp_likes_count data\<rparr>
                                else post)
                      (posts v)\<rparr>,
                [Request (toggleLike (localStorage s) (JNum postId))])
           | Inl err \<Rightarrow>
               (v, [Request (toggleLike (localStorage s) (JNum postId)),
                    Alert (''Failed to like post: '' @ like_error_text err)]))"

text \<open>
  On the post page the post id is the route parameter, a string, and the state is the one
  post shown (the like button is rendered only once the post is loaded).
\<close>

definition PostDetail_handleLike ::
  "post \<Rightarrow> auth_state \<Rightarrow> string \<Rightarrow> api_error + like_response \<Rightarrow> post \<times> event list" where
  "PostDetail_handleLike post s postId response =
     (if isGuest s then (post, [Alert ''Please login to like posts''])
      else case response of
             Inr data \<Rightarrow>
               (post\<lparr>is_liked := resp_liked data, likes_count := resp_likes_count data\<rparr>,
                [Request (toggleLike (localStorage s) (JStr postId))])
           | Inl err \<Rightarrow>
               (post, [Request (toggleLike (localStorage s) (JStr postId)),
                       Alert ''Failed to like post'']))"

section \<open>The comments of a post (components/Comments.js)\<close>

text \<open>
  \<^verbatim>\<open>created_at\<close> is kept as the time value of \<^verbatim>\<open>new Date(created_at)\<close>, in milliseconds
  (the dates the server sends are valid); \<^verbatim>\<open>likes_count\<close> may be missing.
\<close>

record comment =
  comment_id :: int
  c_content :: string
  c_creator :: string
  c_created_at :: int
  c_likes_count :: "int option"

text \<open>
  The body of the comment-list response, as \<^verbatim>\<open>response.data.results || response.data || []\<close>
  sees it: an object whose \<^verbatim>\<open>results\<close> is the list; the list itself; a falsy primitive
  (\<^verbatim>\<open>''\<close>, \<^verbatim>\<open>0\<close>, \<^verbatim>\<open>false\<close>), for which the expression is \<^verbatim>\<open>[]\<close>; or \<^verbatim>\<open>null\<close> or \<^verbatim>\<open>undefined\<close>,
  for which reading \<^verbatim>\<open>.results\<close> throws and there is no list (\<open>None\<close>).
\<close>

datatype comments_data = Results "comment list" | Bare "comment list" | Falsy | Nullish

fun comments_of :: "comments_data \<Rightarrow> comment list option" where
  "comments_of (Results cs) = Some cs"
| "comments_of (Bare cs) = Some cs"
| "comments_of Falsy = Some []"
| "comments_of Nullish = None"

record comments_view =
  c_postId :: string
  comments :: "comment list"
  newComment :: utf16
  c_loading :: bool
  sortBy :: string

text \<open>
  \<^verbatim>\<open>String.prototype.trim\<close> removes from both ends the code units that are white space or
  line terminators: TAB, LF, VT, FF, CR, space, no-break space, U+1680, U+2000 to U+200A,
  U+2028, U+2029, U+202F, U+205F, U+3000 and U+FEFF.
\<close>

definition is_ws :: "16 word \<Rightarrow> bool" where
  "is_ws c = (c = 0x0009 \<or> c = 0x000A \<or> c = 0x000B \<or> c = 0x000C \<or> c = 0x000D
              \<or> c = 0x0020 \<or> c = 0x00A0 \<or> c = 0x1680 \<or> (0x2000 \<le> c \<and> c \<le> 0x200A)
              \<or> c = 0x2028 \<or> c = 0x2029 \<or> c = 0x202F \<or> c = 0x205F \<or> c = 0x3000
              \<or> c = 0xFEFF)"

definition trim :: "utf16 \<Rightarrow> utf16" where
  "trim str = rev (dropWhile is_ws (rev (dropWhile is_ws str)))"

text \<open>
  \<^verbatim>\<open>fetchComments\<close> catches what its \<^verbatim>\<open>try\<close> block throws, a rejected call or a body
  without list, and only logs it: the comments stay as they were.
\<close>

definition fetchComments ::
  "comments_view \<Rightarrow> api_error + comments_data \<Rightarrow> comments_view \<times> event list" where
  "fetchComments v response =
     (case response of
        Inr data \<Rightarrow>
          (case comments_of data of
             Some cs \<Rightarrow> (v\<lparr>comments := cs\<rparr>, [Request (getComments (JStr (c_postId v)))])
           | None \<Rightarrow> (v, [Request (getComments (JStr (c_postId v)))]))
      | Inl err \<Rightarrow> (v, [Request (getComments (JStr (c_postId v)))]))"

text \<open>
  \<open>created\<close> is the outcome of \<^verbatim>\<open>commentAPI.createComment\<close>, \<open>fetched\<close> that of the
  \<^verbatim>\<open>getComments\<close> call made by \<^verbatim>\<open>fetchComments()\<close> after it.
\<close>

definition Comments_handleSubmit ::
  "comments_view \<Rightarrow> auth_state \<Rightarrow> api_error + unit \<Rightarrow> api_error + comments_data
     \<Rightarrow> comments_view \<times> event list" where
  "Comments_handleSubmit v s created fetched =
     (if trim (newComment v) = [] then (v, [])
      else if isGuest s then (v, [Alert ''Please login to comment''])
      else case created of
             Inr _ \<Rightarrow>
               (let (v', evs) = fetchComments (v\<lparr>c_loading := True, newComment := []\<rparr>) fetched
                in (v'\<lparr>c_loading := False\<rparr>,
                    Request (createComment (localStorage s) (JStr (c_postId v)) (newComment v))
                      # evs))
           | Inl err \<Rightarrow>
               (v\<lparr>c_loading := False\<rparr>,
                [Request (createComment (localStorage s) (JStr (c_postId v)) (newComment v)),
                 Alert ''Failed to post comment'']))"

text \<open>
  \<^verbatim>\<open>Array.prototype.sort\<close> with a comparator: a stable sort, \<open>a\<close> placed after \<open>b\<close> when
  \<open>cmp a b > 0\<close>. For a comparator that is a consistent ordering, as the three below are,
  the result of a stable sort is determined; it is computed here by insertion from the
  right.
\<close>

fun insert_by :: "('a \<Rightarrow> 'a \<Rightarrow> int) \<Rightarrow> 'a \<Rightarrow> 'a list \<Rightarrow> 'a list" where
  "insert_by cmp x [] = [x]"
| "insert_by cmp x (y # ys) = (if cmp x y \<le> 0 then x # y # ys else y # insert_by cmp x ys)"

fun js_sort :: "('a \<Rightarrow> 'a \<Rightarrow> int) \<Rightarrow> 'a list \<Rightarrow> 'a list" where
  "js_sort cmp [] = []"
| "js_sort cmp (x # xs) = insert_by cmp x (js_sort cmp xs)"

text \<open>\<^verbatim>\<open>c.likes_count || 0\<close>\<close>

definition likes_or_0 :: "comment \<Rightarrow> int" where
  "likes_or_0 c = (case c_likes_count c of None \<Rightarrow> 0 | Some n \<Rightarrow> n)"

definition getSortedComments :: "comments_view \<Rightarrow> comment list" where
  "getSortedComments v =
     (let sorted = comments v
      in if sortBy v = ''likes'' then js_sort (\<lambda>a b. likes_or_0 b - likes_or_0 a) sorted
         else if sortBy v = ''newest'' then js_sort (\<lambda>a b. c_created_at b - c_created_at a) sorted
         else if sortBy v = ''oldest'' then js_sort (\<lambda>a b. c_created_at a - c_created_at b) sorted
         else sorted)"

text \<open>
  A sort button calls \<^verbatim>\<open>setSortBy\<close>. The only effect of the component is
  \<^verbatim>\<open>useEffect(() => { fetchComments(); }, [postId])\<close>, which runs again when \<^verbatim>\<open>postId\<close> has
  changed between two renders; \<open>Comments_rerender\<close> gives the requests a render issues.
\<close>

definition setSortBy :: "comments_view \<Rightarrow> string \<Rightarrow> comments_view" where
  "setSortBy v mode = v\<lparr>sortBy := mode\<rparr>"

definition Comments_rerender :: "comments_view \<Rightarrow> comments_view \<Rightarrow> event list" where
  "Comments_rerender before after =
     (if c_postId after = c_postId before then []
      else [Request (getComments (JStr (c_postId after)))])"

section \<open>The login page (pages/Login.js)\<close>

record login_form =
  f_username :: string
  f_email :: string
  f_password :: string
  f_password2 :: string

record login_view =
  isLogin :: bool
  formData :: login_form
  l_error :: string
  l_loading :: bool

text \<open>\<^verbatim>\<open>typeof result.error === 'string' ? result.error : fallback\<close>\<close>

definition error_text :: "js_data \<Rightarrow> string \<Rightarrow> string" where
  "error_text e fallback = (case e of DStr m \<Rightarrow> m | DObj _ \<Rightarrow> fallback)"

text \<open>
  \<open>login_response\<close> and \<open>register_response\<close> are the outcomes of the two API calls, used
  when the handler gets to make them.
\<close>

definition Login_handleSubmit ::
  "login_view \<Rightarrow> auth_state \<Rightarrow> api_error + string \<Rightarrow> api_error + unit
     \<Rightarrow> login_view \<times> auth_state \<times> event list" where
  "Login_handleSubmit v s login_response register_response =
     (let fd = formData v;
          v1 = v\<lparr>l_loading := True, l_error := []\<rparr>
      in if isLogin v then
           (case login s (f_username fd) (f_password fd) login_response of
              (s', AuthSuccess _) \<Rightarrow>
                (v1\<lparr>l_loading := False\<rparr>, s',
                 [Request (authAPI_login (f_username fd) (f_password fd)), OnLoginSuccess])
            | (s', AuthFailure e) \<Rightarrow>
                (v1\<lparr>l_error := error_text e ''Login failed'', l_loading := False\<rparr>, s',
                 [Request (authAPI_login (f_username fd) (f_password fd))]))
         else if f_password fd \<noteq> f_password2 fd then
           (v1\<lparr>l_error := ''Passwords do not match'', l_loading := False\<rparr>, s, [])
         else
           (case register s (f_username fd) (f_email fd) (f_password fd) (f_password2 fd)
                   register_response of
              (s1, AuthSuccess _) \<Rightarrow>
                (case login s1 (f_username fd) (f_password fd) login_response of
                   (s2, AuthSuccess _) \<Rightarrow>
                     (v1\<lparr>l_loading := False\<rparr>, s2,
                      [Request (authAPI_register (f_username fd) (f_email fd) (f_password fd)
                                  (f_password2 fd)),
                       Request (authAPI_login (f_username fd) (f_password fd)),
                       OnLoginSuccess])
                 | (s2, AuthFailure e) \<Rightarrow>
                     (v1\<lparr>l_error :=
                           ''Registration successful, but login failed. Please try logging in.'',
                         l_loading := False\<rparr>, s2,
                      [Request (authAPI_register (f_username fd) (f_email fd) (f_password fd)
                                  (f_password2 fd)),
                       Request (authAPI_login (f_username fd) (f_password fd))]))
            | (s1, AuthFailure e) \<Rightarrow>
                (v1\<lparr>l_error := error_text e ''Registration failed'', l_loading := False\<rparr>, s1,
                 [Request (authAPI_register (f_username fd) (f_email fd) (f_password fd)
                             (f_password2 fd))])))"

section \<open>Sample data\<close>

definition c_old :: comment where
  "c_old = \<lparr>comment_id = 1, c_content = ''first'', c_creator = ''ana'',
            c_created_at = 1000, c_likes_count = Some 3\<rparr>"

definition c_new :: comment where
  "c_new = \<lparr>comment_id = 2, c_content = ''second'', c_creator = ''bo'',
            c_created_at = 2000, c_likes_count = None\<rparr>"

definition cv_newest :: comments_view where
  "cv_newest = \<lparr>c_postId = ''7'', comments = [c_new, c_old], newComment = [],
                c_loading = False, sortBy = ''newest''\<rparr>"

definition post_P :: post where
  "post_P = \<lparr>post_id = 7, title = ''Budget'', content = ''Text'', topic = (1, ''Economy''),
             creator = ''ana'', created_at = ''2024-01-02T10:00:00Z'', likes_count = 5,
             comments_count = 2, is_liked = False\<rparr>"

definition post_Q :: post where
  "post_Q = \<lparr>post_id = 8, title = ''Vote'', content = ''More'', topic = (2, ''Elections''),
             creator = ''bo'', created_at = ''2024-01-03T10:00:00Z'', likes_count = 9,
             comments_count = 0, is_liked = True\<rparr>"

definition home_PQ :: home_view where
  "home_PQ = \<lparr>activeTab = ''popular'', posts = [post_Q, post_P], h_loading = False,
              h_error = []\<rparr>"

definition user_session :: auth_state where
  "user_session = fst (login (module_load Map.empty) ''ana'' ''pw'' (Inr ''t0k''))"

definition guest_session :: auth_state where
  "guest_session = fst (loginAsGuest (module_load Map.empty))"

definition net_error :: api_error where
  "net_error = \<lparr>err_response_data = None, err_message = ''Network Error''\<rparr>"

text \<open>A space and an em space (U+2003); the word \<^verbatim>\<open>hello\<close>.\<close>

definition cv_blank :: comments_view where
  "cv_blank = \<lparr>c_postId = ''7'', comments = [c_old], newComment = [0x0020, 0x2003],
               c_loading = False, sortBy = ''likes''\<rparr>"

definition cv_hello :: comments_view where
  "cv_hello = \<lparr>c_postId = ''7'', comments = [c_old],
               newComment = [0x0068, 0x0065, 0x006C, 0x006C, 0x006F],
               c_loading = False, sortBy = ''likes''\<rparr>"

definition form_mismatch :: login_view where
  "form_mismatch =
     \<lparr>isLogin = False,
      formData = \<lparr>f_username = ''ana'', f_email = ''ana@example.org'', f_password = ''pw'',
                  f_password2 = ''pv''\<rparr>,
      l_error = [], l_loading = False\<rparr>"

definition form_match :: login_view where
  "form_match =
     \<lparr>isLogin = False,
      formData = \<lparr>f_username = ''ana'', f_email = ''ana@example.org'', f_password = ''pw'',
                  f_password2 = ''pw''\<rparr>,
      l_error = [], l_loading = False\<rparr>"

section \<open>Properties of the session store\<close>

lemma guest_flag_excludes_credential:
  "reachable s \<Longrightarrow> guestMode s \<Longrightarrow>
     getItem (localStorage s) ''authToken'' = None \<and> getItem (localStorage s) ''username'' = None"
proof (induction rule: reachable.induct)
  case (r_load ls)
  then show ?case by (simp add: module_load_def)
next
  case (r_login s username password response)
  then show ?case by (cases response) (simp_all add: login_def)
next
  case (r_register s username email password password2 response)
  then show ?case by (cases response) (simp_all add: register_def)
next
  case (r_guest s)
  show ?case by (simp add: loginAsGuest_def getItem_def removeItem_def)
next
  case (r_logout s)
  then show ?case by (simp add: logout_def)
next
  case (r_init s)
  then show ?case by (simp add: initAuth_def Let_def split: if_splits)
next
  case (r_reload s)
  then show ?case by (simp add: reload_def module_load_def)
qed

text \<open>
  C2. A login whose request fails returns the state it was given, with guest flag,
  in-memory username and stored data all as before, and an error result. A login whose
  request succeeds with token \<open>t\<close> stores \<open>t\<close> and the username, clears the guest flag and
  sets the in-memory username; the store then reports the session as authenticated and
  not a guest (for a token that is not the empty string, which JavaScript counts as no
  token) and reports the given username (when that is not the empty string).
\<close>

theorem login_failure_keeps_success_authenticates:
  "fst (login s u p (Inl e)) = s
   \<and> snd (login s u p (Inl e)) = AuthFailure (data_or (err_response_data e) (DStr ''Login failed''))
   \<and> getItem (localStorage (fst (login s u p (Inr t)))) ''authToken'' = Some t
   \<and> getItem (localStorage (fst (login s u p (Inr t)))) ''username'' = Some u
   \<and> \<not> guestMode (fst (login s u p (Inr t)))
   \<and> currentUsername (fst (login s u p (Inr t))) = Some u
   \<and> snd (login s u p (Inr t)) = AuthSuccess (Some (u, Some t))
   \<and> \<not> isGuest (fst (login s u p (Inr t)))
   \<and> getToken (fst (login s u p (Inr t))) = Some t
   \<and> (t \<noteq> [] \<longrightarrow> isAuthenticated (fst (login s u p (Inr t))))
   \<and> (u \<noteq> [] \<longrightarrow> getUsername (fst (login s u p (Inr t))) = u)"
  by (simp add: login_def getItem_def setItem_def isGuest_def isAuthenticated_def
      getToken_def getUsername_def truthy_def)

theorem login_failure_keeps_success_authenticates_witness:
  "fst (login (module_load Map.empty) ''ana'' ''pw''
          (Inl \<lparr>err_response_data = None, err_message = ''Network Error''\<rparr>))
     = module_load Map.empty
   \<and> snd (login (module_load Map.empty) ''ana'' ''pw''
          (Inl \<lparr>err_response_data = None, err_message = ''Network Error''\<rparr>))
     = AuthFailure (DStr ''Login failed'')
   \<and> isAuthenticated (fst (login (module_load Map.empty) ''ana'' ''pw'' (Inr ''t0k'')))
   \<and> getUsername (fst (login (module_load Map.empty) ''ana'' ''pw'' (Inr ''t0k''))) = ''ana''"
  using login_failure_keeps_success_authenticates
    [of "module_load Map.empty" "''ana''" "''pw''"
        "\<lparr>err_response_data = None, err_message = ''Network Error''\<rparr>" "''t0k''"]
  by (simp add: data_or_def)

text \<open>
  C6. Entering guest mode succeeds from every state: the session is then a guest session
  and neither token nor username is stored. Guest mode lives in memory only, so after a
  reload and \<^verbatim>\<open>initAuth\<close> the session is neither guest nor authenticated.
\<close>

theorem guest_entry_clears_and_is_not_persisted:
  "snd (loginAsGuest s) = AuthSuccess (Some (''Guest'', None))
   \<and> isGuest (fst (loginAsGuest s))
   \<and> isAuthenticated (fst (loginAsGuest s))
   \<and> getUsername (fst (loginAsGuest s)) = ''Guest''
   \<and> getItem (localStorage (fst (loginAsGuest s))) ''authToken'' = None
   \<and> getItem (localStorage (fst (loginAsGuest s))) ''username'' = None
   \<and> \<not> isGuest (initAuth (reload (fst (loginAsGuest s))))
   \<and> \<not> isAuthenticated (initAuth (reload (fst (loginAsGuest s))))"
  by (simp add: loginAsGuest_def isGuest_def isAuthenticated_def getUsername_def getItem_def
      removeItem_def truthy_def initAuth_def reload_def module_load_def)

theorem guest_entry_clears_and_is_not_persisted_witness:
  "isGuest (fst (loginAsGuest (fst (login (module_load Map.empty) ''ana'' ''pw'' (Inr ''t0k'')))))
   \<and> getItem (localStorage
        (fst (loginAsGuest (fst (login (module_load Map.empty) ''ana'' ''pw'' (Inr ''t0k''))))))
        ''authToken'' = None
   \<and> \<not> isAuthenticated (initAuth (reload
        (fst (loginAsGuest (fst (login (module_load Map.empty) ''ana'' ''pw'' (Inr ''t0k'')))))))"
  using guest_entry_clears_and_is_not_persisted
    [of "fst (login (module_load Map.empty) ''ana'' ''pw'' (Inr ''t0k''))"]
  by simp

text \<open>
  C9. In every state \<^verbatim>\<open>isGuest()\<close> holds only with the guest flag set and no token that
  JavaScript counts as one; in every reachable state it holds only with no token stored at
  all, so a session with a stored token is never a guest session. Whenever
  \<^verbatim>\<open>isGuest()\<close> and \<^verbatim>\<open>isAuthenticated()\<close> hold together the session is a guest
  session without stored credential, and a session that is not in guest mode and has no
  stored token satisfies neither.
\<close>

theorem guest_only_without_credential:
  "(isGuest s \<longrightarrow> guestMode s \<and> \<not> truthy (getToken s))
   \<and> (reachable s \<longrightarrow> isGuest s \<longrightarrow> guestMode s \<and> getToken s = None)
   \<and> (reachable s \<longrightarrow> getToken s \<noteq> None \<longrightarrow> \<not> isGuest s)
   \<and> (reachable s \<longrightarrow> isGuest s \<and> isAuthenticated s \<longrightarrow>
        getToken s = None \<and> getItem (localStorage s) ''username'' = None)
   \<and> (\<not> guestMode s \<and> getToken s = None \<longrightarrow> \<not> isGuest s \<and> \<not> isAuthenticated s)"
proof -
  have a: "isGuest s \<longrightarrow> guestMode s \<and> \<not> truthy (getToken s)"
    by (simp add: isGuest_def getToken_def)
  have b: "reachable s \<longrightarrow> isGuest s \<longrightarrow>
      guestMode s \<and> getToken s = None \<and> getItem (localStorage s) ''username'' = None"
    using guest_flag_excludes_credential [of s] by (simp add: isGuest_def getToken_def)
  have c: "\<not> guestMode s \<and> getToken s = None \<longrightarrow> \<not> isGuest s \<and> \<not> isAuthenticated s"
    by (simp add: isGuest_def isAuthenticated_def getToken_def truthy_def)
  from a b c show ?thesis by fastforce
qed

theorem guest_only_without_credential_witness:
  "reachable (fst (loginAsGuest (module_load [''authToken'' \<mapsto> ''t0k''])))
   \<and> isGuest (fst (loginAsGuest (module_load [''authToken'' \<mapsto> ''t0k''])))
   \<and> getToken (fst (loginAsGuest (module_load [''authToken'' \<mapsto> ''t0k'']))) = None
   \<and> reachable (module_load [''authToken'' \<mapsto> ''t0k''])
   \<and> getToken (module_load [''authToken'' \<mapsto> ''t0k'']) \<noteq> None
   \<and> \<not> isGuest (module_load [''authToken'' \<mapsto> ''t0k''])"
proof -
  have r0: "reachable (module_load [''authToken'' \<mapsto> ''t0k''])"
    by (rule r_load)
  have r1: "reachable (fst (loginAsGuest (module_load [''authToken'' \<mapsto> ''t0k''])))"
    by (rule r_guest [OF r0])
  have g: "isGuest (fst (loginAsGuest (module_load [''authToken'' \<mapsto> ''t0k''])))"
    by (simp add: loginAsGuest_def isGuest_def module_load_def getItem_def removeItem_def
        truthy_def)
  have t: "getToken (module_load [''authToken'' \<mapsto> ''t0k'']) \<noteq> None"
    by (simp add: getToken_def module_load_def getItem_def)
  from guest_only_without_credential
    [of "fst (loginAsGuest (module_load [''authToken'' \<mapsto> ''t0k'']))"]
    guest_only_without_credential [of "module_load [''authToken'' \<mapsto> ''t0k'']"]
    r0 r1 g t
  show ?thesis by blast
qed

section \<open>Properties of the comment list\<close>

text \<open>
  The comparators used on comments order by a key, so the sort of the model is the
  library's stable sort on that key.
\<close>

lemma insert_by_insort_key:
  assumes "\<And>a b. (cmp a b \<le> 0) = (k a \<le> (k b :: int))"
  shows "insert_by cmp x ys = insort_key k x ys"
  by (induction ys) (simp_all add: assms)

lemma js_sort_sort_key:
  assumes "\<And>a b. (cmp a b \<le> 0) = (k a \<le> (k b :: int))"
  shows "js_sort cmp xs = sort_key k xs"
  by (induction xs) (simp_all add: insert_by_insort_key [OF assms])

lemma getSortedComments_sort_key:
  "getSortedComments v =
     (if sortBy v = ''likes'' then sort_key (\<lambda>c. - likes_or_0 c) (comments v)
      else if sortBy v = ''newest'' then sort_key (\<lambda>c. - c_created_at c) (comments v)
      else if sortBy v = ''oldest'' then sort_key c_created_at (comments v)
      else comments v)"
  by (simp add: getSortedComments_def
      js_sort_sort_key [where k = "\<lambda>c. - likes_or_0 c"]
      js_sort_sort_key [where k = "\<lambda>c. - c_created_at c"]
      js_sort_sort_key [where k = "c_created_at"])

lemma sorted_map_neg:
  "sorted (map (\<lambda>c. - (f c :: int)) xs) = sorted_wrt (\<lambda>a b. f b \<le> f a) xs"
  by (induction xs) auto

lemma sorted_map_key:
  "sorted (map (f :: 'a \<Rightarrow> int) xs) = sorted_wrt (\<lambda>a b. f a \<le> f b) xs"
  by (induction xs) auto

lemma getSortedComments_fixed:
  "getSortedComments (v\<lparr>comments := getSortedComments v\<rparr>) = getSortedComments v"
  by (simp add: getSortedComments_sort_key sort_key_id_if_sorted)

lemma getSortedComments_order:
  "(sortBy v = ''likes'' \<longrightarrow>
      sorted_wrt (\<lambda>a b. likes_or_0 b \<le> likes_or_0 a) (getSortedComments v))
   \<and> (sortBy v = ''newest'' \<longrightarrow>
      sorted_wrt (\<lambda>a b. c_created_at b \<le> c_created_at a) (getSortedComments v))
   \<and> (sortBy v = ''oldest'' \<longrightarrow>
      sorted_wrt (\<lambda>a b. c_created_at a \<le> c_created_at b) (getSortedComments v))"
proof -
  have l: "sorted (map (\<lambda>c. - likes_or_0 c) (sort_key (\<lambda>c. - likes_or_0 c) (comments v)))"
    by (rule sorted_sort_key)
  have n: "sorted (map (\<lambda>c. - c_created_at c) (sort_key (\<lambda>c. - c_created_at c) (comments v)))"
    by (rule sorted_sort_key)
  have p: "sorted (map c_created_at (sort_key c_created_at (comments v)))"
    by (rule sorted_sort_key)
  from l n p show ?thesis
    by (simp add: getSortedComments_sort_key sorted_map_neg sorted_map_key)
qed

text \<open>
  C8. Sorting by \<^verbatim>\<open>newest\<close> a list that is already in descending order of \<^verbatim>\<open>created_at\<close>
  returns the same list, and sorting the sorted list again changes nothing in any mode.
  Each mode returns a rearrangement of the fetched comments, in descending order of likes,
  descending order of date or ascending order of date. Choosing a mode changes neither the
  fetched list nor the post id, and the render that follows issues no request.
\<close>

theorem comment_resort_idempotent_and_local:
  "(sortBy v = ''newest'' \<and> sorted_wrt (\<lambda>a b. c_created_at b \<le> c_created_at a) (comments v)
      \<longrightarrow> getSortedComments v = comments v)
   \<and> getSortedComments (v\<lparr>comments := getSortedComments v\<rparr>) = getSortedComments v
   \<and> mset (getSortedComments v) = mset (comments v)
   \<and> (sortBy v = ''likes'' \<longrightarrow>
        sorted_wrt (\<lambda>a b. likes_or_0 b \<le> likes_or_0 a) (getSortedComments v))
   \<and> (sortBy v = ''newest'' \<longrightarrow>
        sorted_wrt (\<lambda>a b. c_created_at b \<le> c_created_at a) (getSortedComments v))
   \<and> (sortBy v = ''oldest'' \<longrightarrow>
        sorted_wrt (\<lambda>a b. c_created_at a \<le> c_created_at b) (getSortedComments v))
   \<and> comments (setSortBy v mode) = comments v
   \<and> Comments_rerender v (setSortBy v mode) = []"
proof -
  have same: "sortBy v = ''newest'' \<and>
      sorted_wrt (\<lambda>a b. c_created_at b \<le> c_created_at a) (comments v)
      \<longrightarrow> getSortedComments v = comments v"
    by (simp add: getSortedComments_sort_key sort_key_id_if_sorted sorted_map_neg)
  have perm: "mset (getSortedComments v) = mset (comments v)"
    by (simp add: getSortedComments_sort_key)
  have local: "comments (setSortBy v mode) = comments v
      \<and> Comments_rerender v (setSortBy v mode) = []"
    by (simp add: setSortBy_def Comments_rerender_def)
  from same perm local getSortedComments_fixed [of v] getSortedComments_order [of v]
  show ?thesis by simp
qed

theorem comment_resort_idempotent_and_local_witness:
  "sortBy cv_newest = ''newest''
   \<and> sorted_wrt (\<lambda>a b. c_created_at b \<le> c_created_at a) (comments cv_newest)
   \<and> getSortedComments cv_newest = [c_new, c_old]
   \<and> getSortedComments (cv_newest\<lparr>sortBy := ''oldest''\<rparr>) = [c_old, c_new]
   \<and> Comments_rerender cv_newest (setSortBy cv_newest ''likes'') = []"
proof -
  have h: "sortBy cv_newest = ''newest''
      \<and> sorted_wrt (\<lambda>a b. c_created_at b \<le> c_created_at a) (comments cv_newest)"
    by (simp add: cv_newest_def c_new_def c_old_def)
  have o: "getSortedComments (cv_newest\<lparr>sortBy := ''oldest''\<rparr>) = [c_old, c_new]"
    by (simp add: getSortedComments_def cv_newest_def c_new_def c_old_def)
  from h o comment_resort_idempotent_and_local [of cv_newest "''likes''"]
  show ?thesis by (simp add: cv_newest_def)
qed

section \<open>Properties of the feed\<close>

lemma map_patch_distinct:
  assumes "distinct (map f xs)" and "i < length xs"
  shows "map (\<lambda>x. if f x = f (xs ! i) then g x else x) xs = xs[i := g (xs ! i)]"
proof (rule nth_equalityI)
  show "length (map (\<lambda>x. if f x = f (xs ! i) then g x else x) xs) = length (xs[i := g (xs ! i)])"
    by simp
next
  fix j
  assume "j < length (map (\<lambda>x. if f x = f (xs ! i) then g x else x) xs)"
  then have j: "j < length xs" by simp
  have "f (xs ! j) = f (xs ! i) \<longleftrightarrow> j = i"
    using assms j nth_eq_iff_index_eq [of "map f xs" j i] by simp
  with j assms(2)
  show "map (\<lambda>x. if f x = f (xs ! i) then g x else x) xs ! j = xs[i := g (xs ! i)] ! j"
    by (simp add: nth_list_update)
qed

lemma user_session_not_guest: "\<not> isGuest user_session"
  by (simp add: user_session_def login_def isGuest_def)

lemma guest_session_guest: "isGuest guest_session"
  by (simp add: guest_session_def loginAsGuest_def isGuest_def module_load_def getItem_def
      removeItem_def truthy_def)

text \<open>
  C1. When a session that is not a guest toggles the like of post \<open>pid\<close> and the server
  answers \<open>r\<close>, the feed has the same length; every post with another id is unchanged;
  a post with id \<open>pid\<close> keeps every field except \<^verbatim>\<open>is_liked\<close> and \<^verbatim>\<open>likes_count\<close>, which
  are the values of the answer, whatever the count was before. With distinct ids the new
  feed is the old one with the one entry replaced. Nothing else of the view changes, and
  the post page patches its post in the same way.
\<close>

theorem like_patches_only_target:
  assumes "\<not> isGuest s"
  shows
  "length (posts (fst (Home_handleLike v s pid (Inr r)))) = length (posts v)
   \<and> (\<forall>i < length (posts v). post_id (posts v ! i) \<noteq> pid \<longrightarrow>
        posts (fst (Home_handleLike v s pid (Inr r))) ! i = posts v ! i)
   \<and> (\<forall>i < length (posts v). post_id (posts v ! i) = pid \<longrightarrow>
        posts (fst (Home_handleLike v s pid (Inr r))) ! i
          = (posts v ! i)\<lparr>is_liked := resp_liked r, likes_count := resp_likes_count r\<rparr>
        \<and> likes_count (posts (fst (Home_handleLike v s pid (Inr r))) ! i) = resp_likes_count r
        \<and> is_liked (posts (fst (Home_handleLike v s pid (Inr r))) ! i) = resp_liked r
        \<and> post_id (posts (fst (Home_handleLike v s pid (Inr r))) ! i) = pid
        \<and> title (posts (fst (Home_handleLike v s pid (Inr r))) ! i) = title (posts v ! i)
        \<and> content (posts (fst (Home_handleLike v s pid (Inr r))) ! i) = content (posts v ! i)
        \<and> topic (posts (fst (Home_handleLike v s pid (Inr r))) ! i) = topic (posts v ! i)
        \<and> creator (posts (fst (Home_handleLike v s pid (Inr r))) ! i) = creator (posts v ! i)
        \<and> created_at (posts (fst (Home_handleLike v s pid (Inr r))) ! i)
            = created_at (posts v ! i)
        \<and> comments_count (posts (fst (Home_handleLike v s pid (Inr r))) ! i)
            = comments_count (posts v ! i))
   \<and> (distinct (map post_id (posts v)) \<longrightarrow>
        (\<forall>i < length (posts v). post_id (posts v ! i) = pid \<longrightarrow>
           posts (fst (Home_handleLike v s pid (Inr r)))
             = (posts v)[i := (posts v ! i)\<lparr>is_liked := resp_liked r,
                                             likes_count := resp_likes_count r\<rparr>]))
   \<and> activeTab (fst (Home_handleLike v s pid (Inr r))) = activeTab v
   \<and> h_loading (fst (Home_handleLike v s pid (Inr r))) = h_loading v
   \<and> h_error (fst (Home_handleLike v s pid (Inr r))) = h_error v
   \<and> snd (Home_handleLike v s pid (Inr r)) = [Request (toggleLike (localStorage s) (JNum pid))]
   \<and> fst (PostDetail_handleLike p s pid' (Inr r))
        = p\<lparr>is_liked := resp_liked r, likes_count := resp_likes_count r\<rparr>
   \<and> snd (PostDetail_handleLike p s pid' (Inr r))
        = [Request (toggleLike (localStorage s) (JStr pid'))]"
proof -
  let ?g = "\<lambda>q. q\<lparr>is_liked := resp_liked r, likes_count := resp_likes_count r\<rparr>"
  have ps: "posts (fst (Home_handleLike v s pid (Inr r)))
      = map (\<lambda>q. if post_id q = pid then ?g q else q) (posts v)"
    using assms by (simp add: Home_handleLike_def)
  have rest: "activeTab (fst (Home_handleLike v s pid (Inr r))) = activeTab v
      \<and> h_loading (fst (Home_handleLike v s pid (Inr r))) = h_loading v
      \<and> h_error (fst (Home_handleLike v s pid (Inr r))) = h_error v
      \<and> snd (Home_handleLike v s pid (Inr r)) = [Request (toggleLike (localStorage s) (JNum pid))]"
    using assms by (simp add: Home_handleLike_def)
  have detail: "fst (PostDetail_handleLike p s pid' (Inr r)) = ?g p
      \<and> snd (PostDetail_handleLike p s pid' (Inr r))
          = [Request (toggleLike (localStorage s) (JStr pid'))]"
    using assms by (simp add: PostDetail_handleLike_def)
  have whole: "distinct (map post_id (posts v)) \<longrightarrow>
      (\<forall>i < length (posts v). post_id (posts v ! i) = pid \<longrightarrow>
         posts (fst (Home_handleLike v s pid (Inr r))) = (posts v)[i := ?g (posts v ! i)])"
    using map_patch_distinct [of post_id "posts v" _ ?g] by (auto simp add: ps)
  from rest detail whole show ?thesis
    by (simp add: ps)
qed

theorem like_patches_only_target_witness:
  "\<not> isGuest user_session
   \<and> posts (fst (Home_handleLike home_PQ user_session 7
        (Inr \<lparr>resp_liked = True, resp_likes_count = 6\<rparr>)))
      = [post_Q, post_P\<lparr>is_liked := True, likes_count := 6\<rparr>]"
proof -
  let ?r = "\<lparr>resp_liked = True, resp_likes_count = 6\<rparr>"
  let ?ps = "posts (fst (Home_handleLike home_PQ user_session 7 (Inr ?r)))"
  have d: "distinct (map post_id (posts home_PQ))"
    by (simp add: home_PQ_def post_P_def post_Q_def)
  have i: "Suc 0 < length (posts home_PQ) \<and> post_id (posts home_PQ ! Suc 0) = 7"
    by (simp add: home_PQ_def post_P_def)
  have u: "(posts home_PQ)[Suc 0 := (posts home_PQ ! Suc 0)\<lparr>is_liked := True, likes_count := 6\<rparr>]
      = [post_Q, post_P\<lparr>is_liked := True, likes_count := 6\<rparr>]"
    by (simp add: home_PQ_def)
  from like_patches_only_target [OF user_session_not_guest, of home_PQ 7 ?r post_P "''7''"]
  have "distinct (map post_id (posts home_PQ)) \<longrightarrow>
      (\<forall>i < length (posts home_PQ). post_id (posts home_PQ ! i) = 7 \<longrightarrow>
         ?ps = (posts home_PQ)[i := (posts home_PQ ! i)\<lparr>is_liked := resp_liked ?r,
                                                       likes_count := resp_likes_count ?r\<rparr>])"
    by blast
  with d i have "?ps = (posts home_PQ)[Suc 0 := (posts home_PQ ! Suc 0)\<lparr>is_liked := resp_liked ?r,
      likes_count := resp_likes_count ?r\<rparr>]"
    by blast
  with u user_session_not_guest show ?thesis by simp
qed

text \<open>
  C7. Whatever the outcome, a feed load issues exactly one request, a GET of the post list
  with page 1, page size 20 and the ordering of the active tab: \<^verbatim>\<open>-likes_count\<close> for
  \<^verbatim>\<open>popular\<close>, \<^verbatim>\<open>-created_at\<close> for \<^verbatim>\<open>following\<close>. When the call resolves the posts of the
  view are the returned list, the empty list when there are no results. Loading
  \<^verbatim>\<open>popular\<close>, switching to \<^verbatim>\<open>following\<close> and back issues three requests, each with its
  ordering.
\<close>

theorem feed_load_sends_ordering_and_replaces:
  "length (snd (fetchPosts v ls resp)) = 1
   \<and> map r_method (requests_of (snd (fetchPosts v ls resp))) = [GET]
   \<and> map r_url (requests_of (snd (fetchPosts v ls resp))) = [API_BASE_URL @ ''/posts/'']
   \<and> map r_params (requests_of (snd (fetchPosts v ls resp)))
        = [[(''page'', JNum 1), (''page_size'', JNum 20),
            (''ordering'', JStr (if activeTab v = ''popular'' then ''-likes_count''
                                 else ''-created_at''))]]
   \<and> (activeTab v = ''popular'' \<longrightarrow>
        map (\<lambda>q. map_of (r_params q) ''ordering'') (requests_of (snd (fetchPosts v ls resp)))
          = [Some (JStr ''-likes_count'')])
   \<and> (activeTab v = ''following'' \<longrightarrow>
        map (\<lambda>q. map_of (r_params q) ''ordering'') (requests_of (snd (fetchPosts v ls resp)))
          = [Some (JStr ''-created_at'')])
   \<and> posts (fst (fetchPosts v ls (Inr (Some ps)))) = ps
   \<and> posts (fst (fetchPosts v ls (Inr None))) = []
   \<and> (activeTab v = ''popular'' \<longrightarrow>
        map (\<lambda>q. map_of (r_params q) ''ordering'')
          (requests_of
             (snd (fetchPosts v ls r1)
              @ snd (setActiveTab (fst (fetchPosts v ls r1)) ''following'' ls r2)
              @ snd (setActiveTab
                       (fst (setActiveTab (fst (fetchPosts v ls r1)) ''following'' ls r2))
                       ''popular'' ls r3)))
          = [Some (JStr ''-likes_count''), Some (JStr ''-created_at''),
             Some (JStr ''-likes_count'')])"
proof -
  have one: "snd (fetchPosts v ls resp)
      = [Request (getAllPosts ls 1 20
           (if activeTab v = ''popular'' then ''-likes_count'' else ''-created_at''))]" for v resp
    by (cases resp) (simp_all add: fetchPosts_def Let_def)
  have tab: "activeTab (fst (fetchPosts v ls resp)) = activeTab v" for v resp
    by (cases resp) (simp_all add: fetchPosts_def Let_def)
  have repl: "posts (fst (fetchPosts v ls (Inr (Some ps)))) = ps
      \<and> posts (fst (fetchPosts v ls (Inr None))) = []"
    by (simp add: fetchPosts_def Let_def)
  have sw: "tab' \<noteq> activeTab v \<Longrightarrow>
      snd (setActiveTab v tab' ls resp)
        = [Request (getAllPosts ls 1 20
             (if tab' = ''popular'' then ''-likes_count'' else ''-created_at''))]
      \<and> activeTab (fst (setActiveTab v tab' ls resp)) = tab'" for v tab' resp
    by (simp add: setActiveTab_def one tab)
  have seq: "activeTab v = ''popular'' \<longrightarrow>
      snd (fetchPosts v ls r1)
        @ snd (setActiveTab (fst (fetchPosts v ls r1)) ''following'' ls r2)
        @ snd (setActiveTab
                 (fst (setActiveTab (fst (fetchPosts v ls r1)) ''following'' ls r2))
                 ''popular'' ls r3)
      = [Request (getAllPosts ls 1 20 ''-likes_count''),
         Request (getAllPosts ls 1 20 ''-created_at''),
         Request (getAllPosts ls 1 20 ''-likes_count'')]"
  proof
    assume p: "activeTab v = ''popular''"
    have a: "''following'' \<noteq> activeTab (fst (fetchPosts v ls r1))"
      by (simp add: tab p)
    have b: "''popular''
        \<noteq> activeTab (fst (setActiveTab (fst (fetchPosts v ls r1)) ''following'' ls r2))"
      using sw [OF a, of r2] by simp
    from sw [OF a, of r2] sw [OF b, of r3] one [of v r1] p
    show "snd (fetchPosts v ls r1)
        @ snd (setActiveTab (fst (fetchPosts v ls r1)) ''following'' ls r2)
        @ snd (setActiveTab
                 (fst (setActiveTab (fst (fetchPosts v ls r1)) ''following'' ls r2))
                 ''popular'' ls r3)
      = [Request (getAllPosts ls 1 20 ''-likes_count''),
         Request (getAllPosts ls 1 20 ''-created_at''),
         Request (getAllPosts ls 1 20 ''-likes_count'')]"
      by simp
  qed
  have par: "r_params (getAllPosts ls 1 20 ord)
      = [(''page'', JNum 1), (''page_size'', JNum 20), (''ordering'', JStr ord)]
      \<and> r_method (getAllPosts ls 1 20 ord) = GET
      \<and> r_url (getAllPosts ls 1 20 ord) = API_BASE_URL @ ''/posts/''" for ord
    by (simp add: getAllPosts_def)
  from repl seq show ?thesis
    by (simp add: one par)
qed

theorem feed_load_sends_ordering_and_replaces_witness:
  "activeTab home_PQ = ''popular''
   \<and> map (\<lambda>q. map_of (r_params q) ''ordering'')
        (requests_of (snd (fetchPosts home_PQ Map.empty (Inr (Some [post_P])))))
      = [Some (JStr ''-likes_count'')]
   \<and> posts (fst (fetchPosts home_PQ Map.empty (Inr (Some [post_P])))) = [post_P]
   \<and> map (\<lambda>q. map_of (r_params q) ''ordering'')
        (requests_of (snd (fetchPosts (home_PQ\<lparr>activeTab := ''following''\<rparr>) Map.empty
                            (Inl net_error))))
      = [Some (JStr ''-created_at'')]"
proof -
  have p: "activeTab home_PQ = ''popular''"
    by (simp add: home_PQ_def)
  have f: "activeTab (home_PQ\<lparr>activeTab := ''following''\<rparr>) = ''following''"
    by simp
  from feed_load_sends_ordering_and_replaces
         [of home_PQ Map.empty "Inr (Some [post_P])" "[post_P]"]
       feed_load_sends_ordering_and_replaces
         [of "home_PQ\<lparr>activeTab := ''following''\<rparr>" Map.empty "Inl net_error"]
       p f
  show ?thesis by blast
qed

text \<open>
  C10. The post-list request and the like-toggle request always carry an
  \<^verbatim>\<open>Authorization\<close> header, the word \<^verbatim>\<open>Token\<close> followed by the stored token. With no
  token stored the header is still there and reads \<^verbatim>\<open>Token null\<close>; that is the case of
  every session without stored credential, and of every reachable guest session. The
  feed load sends its request with this header.
\<close>

theorem authorization_header_always_sent:
  "(getItem ls ''authToken'' = None \<longrightarrow>
      map_of (r_headers (getAllPosts ls page pageSize ord)) ''Authorization''
        = Some ''Token null''
      \<and> map_of (r_headers (toggleLike ls pid)) ''Authorization'' = Some ''Token null'')
   \<and> (getItem ls ''authToken'' = Some t \<longrightarrow>
      map_of (r_headers (getAllPosts ls page pageSize ord)) ''Authorization''
        = Some (''Token '' @ t)
      \<and> map_of (r_headers (toggleLike ls pid)) ''Authorization'' = Some (''Token '' @ t))
   \<and> map_of (r_headers (getAllPosts ls page pageSize ord)) ''Authorization'' \<noteq> None
   \<and> map_of (r_headers (toggleLike ls pid)) ''Authorization'' \<noteq> None
   \<and> (getToken s = None \<or> (reachable s \<and> isGuest s) \<longrightarrow>
      map_of (r_headers (getAllPosts (localStorage s) page pageSize ord)) ''Authorization''
        = Some ''Token null''
      \<and> map_of (r_headers (toggleLike (localStorage s) pid)) ''Authorization''
        = Some ''Token null''
      \<and> map (\<lambda>q. map_of (r_headers q) ''Authorization'')
          (requests_of (snd (fetchPosts v (localStorage s) resp))) = [Some ''Token null''])"
proof -
  have h: "map_of (r_headers (getAllPosts ls page pageSize ord)) ''Authorization''
        = Some (''Token '' @ template_nullable (getItem ls ''authToken''))
      \<and> map_of (r_headers (toggleLike ls pid)) ''Authorization''
        = Some (''Token '' @ template_nullable (getItem ls ''authToken''))" for ls page pageSize ord
    by (simp add: getAllPosts_def toggleLike_def Let_def)
  have f: "map (\<lambda>q. map_of (r_headers q) ''Authorization'')
          (requests_of (snd (fetchPosts v ls resp)))
        = [Some (''Token '' @ template_nullable (getItem ls ''authToken''))]" for ls
    by (cases resp) (simp_all add: fetchPosts_def Let_def getAllPosts_def)
  have g: "getToken s = None \<or> (reachable s \<and> isGuest s) \<longrightarrow>
      getItem (localStorage s) ''authToken'' = None"
    using guest_flag_excludes_credential [of s] by (auto simp add: getToken_def isGuest_def)
  have n: "template_nullable None = ''null''" and m: "template_nullable (Some t) = t"
    by (simp_all add: template_nullable_def)
  from g show ?thesis
    by (auto simp add: h f n m)
qed

theorem authorization_header_always_sent_witness:
  "getToken guest_session = None
   \<and> map_of (r_headers (getAllPosts (localStorage guest_session) 1 20 ''-created_at''))
        ''Authorization'' = Some ''Token null''
   \<and> map_of (r_headers (toggleLike (localStorage guest_session) (JNum 7))) ''Authorization''
        = Some ''Token null''
   \<and> getItem (localStorage user_session) ''authToken'' = Some ''t0k''
   \<and> map_of (r_headers (toggleLike (localStorage user_session) (JNum 7))) ''Authorization''
        = Some ''Token t0k''"
proof -
  have a: "getToken guest_session = None"
    by (simp add: guest_session_def loginAsGuest_def getToken_def getItem_def removeItem_def)
  have b: "getItem (localStorage user_session) ''authToken'' = Some ''t0k''"
    by (simp add: user_session_def login_def getItem_def setItem_def)
  from authorization_header_always_sent
         [of "localStorage guest_session" 1 20 "''-created_at''" "JNum 7" "''t0k''"
             guest_session home_PQ "Inr None"]
       authorization_header_always_sent
         [of "localStorage user_session" 1 20 "''-created_at''" "JNum 7" "''t0k''"
             guest_session home_PQ "Inr None"]
       a b
  show ?thesis by simp
qed

section \<open>Properties of guest sessions, comment submission and registration\<close>

lemma trim_blank: "trim [0x0020, 0x2003] = []"
  by (simp add: trim_def is_ws_def)

lemma trim_hello: "trim [0x0068, 0x0065, 0x006C, 0x006C, 0x006F] \<noteq> []"
  by (simp add: trim_def is_ws_def)

text \<open>
  C3. In a guest session a like toggle, on the feed or on the post page, is refused in
  the browser: nothing changes, the notice \<^verbatim>\<open>Please login to like posts\<close> is shown and no
  request is issued. A comment submitted in a guest session changes nothing and issues no
  request, and a comment with content, the only kind the form lets through (its button
  is disabled while the trimmed text is empty), is answered by the notice
  \<^verbatim>\<open>Please login to comment\<close>.
\<close>

theorem guest_write_rejected_locally:
  assumes "isGuest s"
  shows
  "Home_handleLike v s pid lr = (v, [Alert ''Please login to like posts''])
   \<and> requests_of (snd (Home_handleLike v s pid lr)) = []
   \<and> PostDetail_handleLike p s pid' lr = (p, [Alert ''Please login to like posts''])
   \<and> requests_of (snd (PostDetail_handleLike p s pid' lr)) = []
   \<and> fst (Comments_handleSubmit cv s created fetched) = cv
   \<and> requests_of (snd (Comments_handleSubmit cv s created fetched)) = []
   \<and> (trim (newComment cv) \<noteq> [] \<longrightarrow>
        snd (Comments_handleSubmit cv s created fetched) = [Alert ''Please login to comment''])"
  using assms
  by (simp add: Home_handleLike_def PostDetail_handleLike_def Comments_handleSubmit_def)

theorem guest_write_rejected_locally_witness:
  "isGuest guest_session
   \<and> Home_handleLike home_PQ guest_session 7 (Inr \<lparr>resp_liked = True, resp_likes_count = 6\<rparr>)
       = (home_PQ, [Alert ''Please login to like posts''])
   \<and> trim (newComment cv_hello) \<noteq> []
   \<and> snd (Comments_handleSubmit cv_hello guest_session (Inr ()) (Inr Falsy))
       = [Alert ''Please login to comment'']"
proof -
  have t: "trim (newComment cv_hello) \<noteq> []"
    by (simp add: cv_hello_def trim_hello)
  from guest_write_rejected_locally
         [OF guest_session_guest, of home_PQ 7 "Inr \<lparr>resp_liked = True, resp_likes_count = 6\<rparr>"
            post_P "''7''" cv_hello "Inr ()" "Inr Falsy"]
       t guest_session_guest
  show ?thesis by simp
qed

text \<open>
  C4, as stated, fails: a logged-in user who submits a comment of white space only gets
  no error of any kind. The handler returns at once: no notice is shown, nothing is sent
  and the view is as before.
\<close>

theorem blank_comment_dropped_silently:
  "\<not> isGuest user_session
   \<and> trim (newComment cv_blank) = []
   \<and> Comments_handleSubmit cv_blank user_session (Inr ()) (Inr (Results [c_new, c_old]))
       = (cv_blank, [])
   \<and> alerts_of
       (snd (Comments_handleSubmit cv_blank user_session (Inr ()) (Inr (Results [c_new, c_old]))))
       = []"
  by (simp add: user_session_not_guest Comments_handleSubmit_def cv_blank_def trim_blank)

text \<open>
  C4, amended. A submission needs content that is not blank and a session that is not a
  guest, tested in this order, and is refused otherwise with the view unchanged and no
  request: without any notice or error when the content is blank, with the notice
  \<^verbatim>\<open>Please login to comment\<close> when there is content and the session is a guest. Otherwise
  the comment is posted. When that succeeds the input is cleared and the comments are
  fetched again: the view then holds the list of the response, never the old list with
  the new comment added, and keeps the old list when the fetch fails or its body is null.
  When the post fails the notice \<^verbatim>\<open>Failed to post comment\<close> is shown, nothing is fetched
  and list and input stay.
\<close>

theorem comment_submit_guarded_then_reload:
  "(trim (newComment v) = [] \<longrightarrow> Comments_handleSubmit v s created fetched = (v, []))
   \<and> (trim (newComment v) \<noteq> [] \<and> isGuest s \<longrightarrow>
        Comments_handleSubmit v s created fetched = (v, [Alert ''Please login to comment'']))
   \<and> (isGuest s \<or> trim (newComment v) = [] \<longrightarrow>
      fst (Comments_handleSubmit v s created fetched) = v
      \<and> requests_of (snd (Comments_handleSubmit v s created fetched)) = [])
   \<and> (\<not> isGuest s \<and> trim (newComment v) \<noteq> [] \<longrightarrow>
      snd (Comments_handleSubmit v s (Inr ()) fetched)
        = [Request (createComment (localStorage s) (JStr (c_postId v)) (newComment v)),
           Request (getComments (JStr (c_postId v)))]
      \<and> newComment (fst (Comments_handleSubmit v s (Inr ()) fetched)) = []
      \<and> comments (fst (Comments_handleSubmit v s (Inr ()) (Inr (Results cs)))) = cs
      \<and> comments (fst (Comments_handleSubmit v s (Inr ()) (Inr (Bare cs)))) = cs
      \<and> comments (fst (Comments_handleSubmit v s (Inr ()) (Inr Falsy))) = []
      \<and> comments (fst (Comments_handleSubmit v s (Inr ()) (Inr Nullish))) = comments v
      \<and> comments (fst (Comments_handleSubmit v s (Inr ()) (Inl e))) = comments v
      \<and> snd (Comments_handleSubmit v s (Inl e) fetched)
        = [Request (createComment (localStorage s) (JStr (c_postId v)) (newComment v)),
           Alert ''Failed to post comment'']
      \<and> comments (fst (Comments_handleSubmit v s (Inl e) fetched)) = comments v
      \<and> newComment (fst (Comments_handleSubmit v s (Inl e) fetched)) = newComment v)"
proof -
  have blank: "trim (newComment v) = [] \<longrightarrow> Comments_handleSubmit v s created fetched = (v, [])"
    by (simp add: Comments_handleSubmit_def)
  have guest: "trim (newComment v) \<noteq> [] \<and> isGuest s \<longrightarrow>
      Comments_handleSubmit v s created fetched = (v, [Alert ''Please login to comment''])"
    by (simp add: Comments_handleSubmit_def)
  have refused: "isGuest s \<or> trim (newComment v) = [] \<longrightarrow>
      fst (Comments_handleSubmit v s created fetched) = v
      \<and> requests_of (snd (Comments_handleSubmit v s created fetched)) = []"
    by (simp add: Comments_handleSubmit_def)
  have sent: "\<not> isGuest s \<and> trim (newComment v) \<noteq> [] \<longrightarrow>
      snd (Comments_handleSubmit v s (Inr ()) fetched)
        = [Request (createComment (localStorage s) (JStr (c_postId v)) (newComment v)),
           Request (getComments (JStr (c_postId v)))]
      \<and> newComment (fst (Comments_handleSubmit v s (Inr ()) fetched)) = []"
    by (cases fetched)
       (simp_all add: Comments_handleSubmit_def fetchComments_def split: option.split)
  have loaded: "\<not> isGuest s \<and> trim (newComment v) \<noteq> [] \<longrightarrow>
      comments (fst (Comments_handleSubmit v s (Inr ()) (Inr (Results cs)))) = cs
      \<and> comments (fst (Comments_handleSubmit v s (Inr ()) (Inr (Bare cs)))) = cs
      \<and> comments (fst (Comments_handleSubmit v s (Inr ()) (Inr Falsy))) = []
      \<and> comments (fst (Comments_handleSubmit v s (Inr ()) (Inr Nullish))) = comments v
      \<and> comments (fst (Comments_handleSubmit v s (Inr ()) (Inl e))) = comments v"
    by (simp add: Comments_handleSubmit_def fetchComments_def)
  have failed: "\<not> isGuest s \<and> trim (newComment v) \<noteq> [] \<longrightarrow>
      snd (Comments_handleSubmit v s (Inl e) fetched)
        = [Request (createComment (localStorage s) (JStr (c_postId v)) (newComment v)),
           Alert ''Failed to post comment'']
      \<and> comments (fst (Comments_handleSubmit v s (Inl e) fetched)) = comments v
      \<and> newComment (fst (Comments_handleSubmit v s (Inl e) fetched)) = newComment v"
    by (simp add: Comments_handleSubmit_def)
  from blank guest refused sent loaded failed show ?thesis by blast
qed

theorem comment_submit_guarded_then_reload_witness:
  "\<not> isGuest user_session \<and> trim (newComment cv_hello) \<noteq> []
   \<and> comments (fst (Comments_handleSubmit cv_hello user_session (Inr ())
        (Inr (Results [c_new, c_old])))) = [c_new, c_old]
   \<and> isGuest guest_session
   \<and> Comments_handleSubmit cv_hello guest_session (Inr ()) (Inr (Results [c_new, c_old]))
       = (cv_hello, [Alert ''Please login to comment''])
   \<and> trim (newComment cv_blank) = []
   \<and> requests_of (snd (Comments_handleSubmit cv_blank user_session (Inr ())
        (Inr (Results [c_new, c_old])))) = []"
proof -
  have t: "trim (newComment cv_hello) \<noteq> []"
    by (simp add: cv_hello_def trim_hello)
  have b: "trim (newComment cv_blank) = []"
    by (simp add: cv_blank_def trim_blank)
  from comment_submit_guarded_then_reload
         [of cv_hello user_session "Inr ()" "Inr (Results [c_new, c_old])"
             "[c_new, c_old]" net_error]
       comment_submit_guarded_then_reload
         [of cv_hello guest_session "Inr ()" "Inr (Results [c_new, c_old])"
             "[c_new, c_old]" net_error]
       comment_submit_guarded_then_reload
         [of cv_blank user_session "Inr ()" "Inr (Results [c_new, c_old])"
             "[c_new, c_old]" net_error]
       t b user_session_not_guest guest_session_guest
  show ?thesis by simp
qed

text \<open>
  C5. On the register path of the login page, passwords that differ are refused with
  the message \<^verbatim>\<open>Passwords do not match\<close> before any request, the session untouched.
  \<^verbatim>\<open>authService.register\<close> returns the session it was given, whatever the outcome of its
  request, and reports success without user or token. With equal passwords and a
  successful registration the page then calls \<^verbatim>\<open>login\<close>, and the session it ends in is the
  one that login produces.
\<close>

theorem register_validates_locally_and_keeps_session:
  "(\<not> isLogin v \<and> f_password (formData v) \<noteq> f_password2 (formData v) \<longrightarrow>
      snd (snd (Login_handleSubmit v s lr rr)) = []
      \<and> fst (snd (Login_handleSubmit v s lr rr)) = s
      \<and> l_error (fst (Login_handleSubmit v s lr rr)) = ''Passwords do not match'')
   \<and> fst (register s u m pw pw2 rr) = s
   \<and> snd (register s u m pw pw2 (Inr ())) = AuthSuccess None
   \<and> snd (register s u m pw pw2 (Inl e))
       = AuthFailure (data_or (err_response_data e) (DStr ''Registration failed''))
   \<and> (\<not> isLogin v \<and> f_password (formData v) = f_password2 (formData v) \<longrightarrow>
      requests_of (snd (snd (Login_handleSubmit v s lr (Inr ()))))
        = [authAPI_register (f_username (formData v)) (f_email (formData v))
             (f_password (formData v)) (f_password2 (formData v)),
           authAPI_login (f_username (formData v)) (f_password (formData v))]
      \<and> fst (snd (Login_handleSubmit v s lr (Inr ())))
        = fst (login s (f_username (formData v)) (f_password (formData v)) lr)
      \<and> requests_of (snd (snd (Login_handleSubmit v s lr (Inl e))))
        = [authAPI_register (f_username (formData v)) (f_email (formData v))
             (f_password (formData v)) (f_password2 (formData v))]
      \<and> fst (snd (Login_handleSubmit v s lr (Inl e))) = s)"
proof -
  have mismatch: "\<not> isLogin v \<and> f_password (formData v) \<noteq> f_password2 (formData v) \<longrightarrow>
      snd (snd (Login_handleSubmit v s lr rr)) = []
      \<and> fst (snd (Login_handleSubmit v s lr rr)) = s
      \<and> l_error (fst (Login_handleSubmit v s lr rr)) = ''Passwords do not match''"
    by (simp add: Login_handleSubmit_def Let_def)
  have reg: "fst (register s u m pw pw2 rr) = s
      \<and> snd (register s u m pw pw2 (Inr ())) = AuthSuccess None
      \<and> snd (register s u m pw pw2 (Inl e))
          = AuthFailure (data_or (err_response_data e) (DStr ''Registration failed''))"
    by (cases rr) (simp_all add: register_def)
  have ok: "\<not> isLogin v \<and> f_password (formData v) = f_password2 (formData v) \<longrightarrow>
      requests_of (snd (snd (Login_handleSubmit v s lr (Inr ()))))
        = [authAPI_register (f_username (formData v)) (f_email (formData v))
             (f_password (formData v)) (f_password2 (formData v)),
           authAPI_login (f_username (formData v)) (f_password (formData v))]
      \<and> fst (snd (Login_handleSubmit v s lr (Inr ())))
        = fst (login s (f_username (formData v)) (f_password (formData v)) lr)"
    by (cases lr) (simp_all add: Login_handleSubmit_def Let_def register_def login_def)
  have bad: "\<not> isLogin v \<and> f_password (formData v) = f_password2 (formData v) \<longrightarrow>
      requests_of (snd (snd (Login_handleSubmit v s lr (Inl e))))
        = [authAPI_register (f_username (formData v)) (f_email (formData v))
             (f_password (formData v)) (f_password2 (formData v))]
      \<and> fst (snd (Login_handleSubmit v s lr (Inl e))) = s"
    by (simp add: Login_handleSubmit_def Let_def register_def)
  from mismatch reg ok bad show ?thesis by blast
qed

theorem register_validates_locally_and_keeps_session_witness:
  "\<not> isLogin form_mismatch
   \<and> f_password (formData form_mismatch) \<noteq> f_password2 (formData form_mismatch)
   \<and> snd (snd (Login_handleSubmit form_mismatch (module_load Map.empty) (Inr ''t0k'') (Inr ())))
       = []
   \<and> \<not> isLogin form_match
   \<and> f_password (formData form_match) = f_password2 (formData form_match)
   \<and> fst (snd (Login_handleSubmit form_match (module_load Map.empty) (Inr ''t0k'') (Inr ())))
       = user_session"
proof -
  have a: "\<not> isLogin form_mismatch
      \<and> f_password (formData form_mismatch) \<noteq> f_password2 (formData form_mismatch)"
    by (simp add: form_mismatch_def)
  have b: "\<not> isLogin form_match
      \<and> f_password (formData form_match) = f_password2 (formData form_match)
      \<and> f_username (formData form_match) = ''ana'' \<and> f_password2 (formData form_match) = ''pw''"
    by (simp add: form_match_def)
  from register_validates_locally_and_keeps_session
         [of form_mismatch "module_load Map.empty" "Inr ''t0k''" "Inr ()"]
       register_validates_locally_and_keeps_session
         [of form_match "module_load Map.empty" "Inr ''t0k''" "Inr ()"]
       a b
  show ?thesis by (simp add: user_session_def)
qed

end
